theory Spec2Isabelle
  imports Complex_Main
begin

section \<open>The scoring gateway of \<open>src/services/api.ts\<close>\<close>

text \<open>
  The module exports three asynchronous operations, \<open>getCreditScore\<close>,
  \<open>getFinancialHealth\<close> and \<open>getAssetRecommendation\<close>. Each awaits one
  \<open>apiClient.post\<close>, inspects what came back and either returns a value or throws.
  The model takes the settled outcome of that \<open>post\<close> as its input and returns a sum:
  \<open>Inl\<close> is a thrown value, \<open>Inr\<close> a returned one. The request object takes no part in
  what the operations do with the outcome, and the two \<open>console\<close> calls only log.
\<close>

subsection \<open>Values\<close>

text \<open>
  A JavaScript number is a double: \<open>NaN\<close>, an infinity, or a finite double, which is
  modelled by its exact value (\<open>-0\<close> is \<open>0\<close>: the module cannot tell them apart). A
  decimal of a payload or of the source is already rounded when the module sees it, so
  no rounding happens in the model: a number literal of the source is written as the
  exact value of its double.
\<close>

datatype number = NaN | Finite real | PosInf | NegInf

text \<open>
  A response body is whatever \<open>JSON.parse\<close> (or axios, for a body that is not JSON)
  produced. An object is the list of its own properties, one entry for each name. A
  property that is absent reads as \<open>undefined\<close>, which is \<open>None\<close> of \<open>json option\<close>.
\<close>

datatype json =
    JNull
  | JBool bool
  | JNum number
  | JStr string
  | JArr "json list"
  | JObj "(string \<times> json) list"

text \<open>
  Two built-ins of the JavaScript engine are not defined here and are carried as
  parameters: the decimal rendering of a number (\<open>Number::toString\<close>) and the
  reading of a string as a number (\<open>StringToNumber\<close>).
\<close>

record js_engine =
  number_to_string :: "number \<Rightarrow> string"
  string_to_number :: "string \<Rightarrow> number"

text \<open>
  What can be thrown: the rejection of \<open>post\<close> by axios, with its \<open>message\<close> and, when
  the server answered, the body \<open>response.data\<close>; a \<open>TypeError\<close> raised by the engine;
  and an \<open>Error\<close> made by \<open>new Error(message)\<close>.
\<close>

datatype thrown =
    AxiosError string "json option"
  | TypeError
  | Error string

datatype outcome = Resolved json | Rejected thrown

datatype risk_tier = LOW | MEDIUM | HIGH

subsection \<open>The JavaScript operators the module uses\<close>

text \<open>
  \<open>v.name\<close> for the names the module reads (\<open>score\<close>, \<open>credit_score\<close>,
  \<open>probability\<close>, \<open>detail\<close>, \<open>msg\<close>): only an object can own them, every other
  value gives \<open>undefined\<close>. On \<open>null\<close> a plain \<open>.\<close> throws; that case is written out
  where the source uses \<open>.\<close> and not \<open>?.\<close>.
\<close>

fun get_prop :: "json \<Rightarrow> string \<Rightarrow> json option" where
  "get_prop (JObj kvs) k = map_of kvs k"
| "get_prop _ k = None"

text \<open>Truthiness, as \<open>||\<close> tests it.\<close>

fun truthy :: "json option \<Rightarrow> bool" where
  "truthy None = False"
| "truthy (Some JNull) = False"
| "truthy (Some (JBool b)) = b"
| "truthy (Some (JNum NaN)) = False"
| "truthy (Some (JNum (Finite r))) = (r \<noteq> 0)"
| "truthy (Some (JNum PosInf)) = True"
| "truthy (Some (JNum NegInf)) = True"
| "truthy (Some (JStr s)) = (s \<noteq> [])"
| "truthy (Some (JArr vs)) = True"
| "truthy (Some (JObj kvs)) = True"

definition js_or :: "json option \<Rightarrow> json option \<Rightarrow> json option" where
  "js_or a b = (if truthy a then a else b)"

text \<open>\<open>a || b\<close> where \<open>b\<close> is a literal, so the result is never \<open>undefined\<close>.\<close>

fun js_or_lit :: "json option \<Rightarrow> json \<Rightarrow> json" where
  "js_or_lit None b = b"
| "js_or_lit (Some v) b = (if truthy (Some v) then v else b)"

text \<open>\<open>Array.prototype.join\<close> on pieces that are strings already.\<close>

fun join_with :: "string \<Rightarrow> string list \<Rightarrow> string" where
  "join_with sep [] = []"
| "join_with sep [s] = s"
| "join_with sep (s # t # ts) = s @ sep @ join_with sep (t # ts)"

text \<open>
  \<open>ToString\<close>, where \<open>None\<close> says that the conversion raises a \<open>TypeError\<close>. An object
  is converted by its \<open>toString\<close> method. A parsed object inherits the one that returns
  \<open>[object Object]\<close>, unless it owns a property of that name: the value of such a
  property is no function, the inherited \<open>valueOf\<close> returns the object itself, and the
  conversion raises. An array renders as its elements joined by a comma, where \<open>null\<close>
  renders as the empty string, and raises when an element does.
\<close>

fun to_str :: "js_engine \<Rightarrow> json \<Rightarrow> string option" where
  "to_str en JNull = Some ''null''"
| "to_str en (JBool b) = Some (if b then ''true'' else ''false'')"
| "to_str en (JNum n) = Some (number_to_string en n)"
| "to_str en (JStr s) = Some s"
| "to_str en (JArr vs) =
     map_option (join_with '','')
       (those (map (\<lambda>v. if v = JNull then Some [] else to_str en v) vs))"
| "to_str en (JObj kvs) =
     (case map_of kvs ''toString'' of
        None \<Rightarrow> Some ''[object Object]''
      | Some f \<Rightarrow> None)"

text \<open>An element of an array being joined: \<open>undefined\<close> and \<open>null\<close> give the empty string.\<close>

fun piece :: "js_engine \<Rightarrow> json option \<Rightarrow> string option" where
  "piece en None = Some []"
| "piece en (Some JNull) = Some []"
| "piece en (Some v) = to_str en v"

definition join_js :: "js_engine \<Rightarrow> string \<Rightarrow> json option list \<Rightarrow> string option" where
  "join_js en sep vs = map_option (join_with sep) (those (map (piece en) vs))"

text \<open>
  \<open>ToNumber\<close>, where \<open>None\<close> says that the conversion raises a \<open>TypeError\<close>. An array
  or object goes through its string, and raises where that does.
\<close>

fun to_number :: "js_engine \<Rightarrow> json \<Rightarrow> number option" where
  "to_number en JNull = Some (Finite 0)"
| "to_number en (JBool b) = Some (Finite (if b then 1 else 0))"
| "to_number en (JNum n) = Some n"
| "to_number en (JStr s) = Some (string_to_number en s)"
| "to_number en v = map_option (string_to_number en) (to_str en v)"

text \<open>\<open>n <= c\<close> on numbers, for a finite \<open>c\<close>: false when \<open>n\<close> is \<open>NaN\<close>.\<close>

fun num_le :: "number \<Rightarrow> real \<Rightarrow> bool" where
  "num_le NaN c = False"
| "num_le (Finite r) c = (r \<le> c)"
| "num_le PosInf c = False"
| "num_le NegInf c = True"

text \<open>\<open>v <= c\<close> for any value \<open>v\<close>; \<open>None\<close> when converting \<open>v\<close> raises.\<close>

definition js_le :: "js_engine \<Rightarrow> json \<Rightarrow> real \<Rightarrow> bool option" where
  "js_le en v c = map_option (\<lambda>n. num_le n c) (to_number en v)"

subsection \<open>getCreditScore\<close>

text \<open>The test of the adapter: \<open>score !== undefined && credit_score === undefined\<close>.\<close>

definition is_legacy :: "json \<Rightarrow> bool" where
  "is_legacy d = (get_prop d ''score'' \<noteq> None \<and> get_prop d ''credit_score'' = None)"

text \<open>
  The two literals of the thresholds. \<open>0.25\<close> is a double. \<open>0.55\<close> is none: the literal
  denotes the double next to it, \<open>2476979795053773 / 2^52\<close>, which is a little
  greater.
\<close>

definition lit_0_25 :: real where
  "lit_0_25 = 1 / 4"

definition lit_0_55 :: real where
  "lit_0_55 = 2476979795053773 / 4503599627370496"

text \<open>
  \<open>calculatedRisk\<close> after the two \<open>if\<close>s; \<open>None\<close> when a comparison raises.
\<close>

definition calculatedRisk :: "js_engine \<Rightarrow> json \<Rightarrow> risk_tier option" where
  "calculatedRisk en prob =
     (case js_le en prob lit_0_25 of
        None \<Rightarrow> None
      | Some True \<Rightarrow> Some LOW
      | Some False \<Rightarrow>
          (case js_le en prob lit_0_55 of
             None \<Rightarrow> None
           | Some True \<Rightarrow> Some MEDIUM
           | Some False \<Rightarrow> Some HIGH))"

fun tier_name :: "risk_tier \<Rightarrow> string" where
  "tier_name LOW = ''LOW''"
| "tier_name MEDIUM = ''MEDIUM''"
| "tier_name HIGH = ''HIGH''"

text \<open>
  The body of the adapter, for \<open>response.data.score = score\<close> and
  \<open>response.data.probability = probability\<close>: \<open>prob\<close>, \<open>calculatedRisk\<close> and the
  object literal that is returned. \<open>None\<close> when a comparison raised a \<open>TypeError\<close>.
\<close>

definition adapt :: "js_engine \<Rightarrow> json \<Rightarrow> json option \<Rightarrow> json option" where
  "adapt en score probability =
     (let prob = js_or_lit probability (JNum (Finite 0))
      in case calculatedRisk en prob of
           None \<Rightarrow> None
         | Some tier \<Rightarrow>
             Some (JObj
               [(''credit_score'', score),
                (''probability_of_default'', prob),
                (''risk_tier'', JStr (tier_name tier)),
                (''recommended_loan_amount'', JNum (Finite 1000000)),
                (''recommended_tenor_months'', JNum (Finite 12)),
                (''explainability'',
                   JObj [(''top_positive_factors'', JArr []),
                         (''top_negative_factors'', JArr [])])]))"

text \<open>
  The \<open>try\<close> block. \<open>response.data.score\<close> on a body that is \<open>null\<close> raises a
  \<open>TypeError\<close> inside the block, and so does a comparison of the adapter that raises.
\<close>

fun creditScore_try :: "js_engine \<Rightarrow> outcome \<Rightarrow> thrown + json" where
  "creditScore_try en (Rejected e) = Inl e"
| "creditScore_try en (Resolved JNull) = Inl TypeError"
| "creditScore_try en (Resolved d) =
     (case get_prop d ''score'' of
        Some score \<Rightarrow>
          (if get_prop d ''credit_score'' = None
           then (case adapt en score (get_prop d ''probability'') of
                   None \<Rightarrow> Inl TypeError
                 | Some r \<Rightarrow> Inr r)
           else Inr d)
      | None \<Rightarrow> Inr d)"

fun isAxiosError :: "thrown \<Rightarrow> bool" where
  "isAxiosError (AxiosError m r) = True"
| "isAxiosError _ = False"

text \<open>\<open>error.response?.data?.detail\<close>.\<close>

fun detail_of :: "thrown \<Rightarrow> json option" where
  "detail_of (AxiosError m (Some d)) = get_prop d ''detail''"
| "detail_of _ = None"

text \<open>
  \<open>error.response?.data?.detail?.map((d) => d.msg).join(", ")\<close>. The chain stops with
  \<open>undefined\<close> only where \<open>detail\<close> is \<open>undefined\<close> or \<open>null\<close>. On any other value that
  is not an array \<open>detail.map\<close> is no function and the call raises a \<open>TypeError\<close>; so
  does \<open>d.msg\<close> on an element that is \<open>null\<close>, and so does the join when the
  conversion of a \<open>msg\<close> raises.
\<close>

fun joined_msgs :: "js_engine \<Rightarrow> json option \<Rightarrow> thrown + json option" where
  "joined_msgs en None = Inr None"
| "joined_msgs en (Some JNull) = Inr None"
| "joined_msgs en (Some (JArr ds)) =
     (if JNull \<in> set ds then Inl TypeError
      else (case join_js en '', '' (map (\<lambda>d. get_prop d ''msg'') ds) of
              None \<Rightarrow> Inl TypeError
            | Some s \<Rightarrow> Inr (Some (JStr s))))"
| "joined_msgs en (Some v) = Inl TypeError"

text \<open>
  What the axios branch throws: the \<open>TypeError\<close> of the chain, or of the conversion of
  the argument of \<open>new Error(A || B || "Unknown API error")\<close> to the message, or else
  the new error.
\<close>

definition api_error :: "js_engine \<Rightarrow> thrown \<Rightarrow> thrown" where
  "api_error en e =
     (case joined_msgs en (detail_of e) of
        Inl t \<Rightarrow> t
      | Inr a \<Rightarrow>
          (case to_str en (js_or_lit (js_or a (detail_of e)) (JStr ''Unknown API error'')) of
             None \<Rightarrow> TypeError
           | Some message \<Rightarrow> Error message))"

definition creditScore_catch :: "js_engine \<Rightarrow> thrown \<Rightarrow> thrown" where
  "creditScore_catch en e =
     (if isAxiosError e then api_error en e
      else Error ''Failed to fetch credit score'')"

definition getCreditScore :: "js_engine \<Rightarrow> outcome \<Rightarrow> thrown + json" where
  "getCreditScore en out =
     (case creditScore_try en out of
        Inr v \<Rightarrow> Inr v
      | Inl e \<Rightarrow> Inl (creditScore_catch en e))"

subsection \<open>getFinancialHealth and getAssetRecommendation\<close>

text \<open>
  \<open>error.response?.data?.detail || error.message\<close>, put into the template literal,
  which converts it to a string and raises where that does.
\<close>

definition financialHealth_catch :: "js_engine \<Rightarrow> thrown \<Rightarrow> thrown" where
  "financialHealth_catch en e =
     (case e of
        AxiosError m r \<Rightarrow>
          (case to_str en (js_or_lit (detail_of e) (JStr m)) of
             None \<Rightarrow> TypeError
           | Some message \<Rightarrow> Error (''Financial Health API Error: '' @ message))
      | _ \<Rightarrow> Error ''Failed to fetch financial health'')"

fun getFinancialHealth :: "js_engine \<Rightarrow> outcome \<Rightarrow> thrown + json" where
  "getFinancialHealth en (Resolved d) = Inr d"
| "getFinancialHealth en (Rejected e) = Inl (financialHealth_catch en e)"

definition assetRecommendation_catch :: "js_engine \<Rightarrow> thrown \<Rightarrow> thrown" where
  "assetRecommendation_catch en e =
     (if isAxiosError e then api_error en e
      else Error ''Failed to fetch asset recommendation'')"

fun getAssetRecommendation :: "js_engine \<Rightarrow> outcome \<Rightarrow> thrown + json" where
  "getAssetRecommendation en (Resolved d) = Inr d"
| "getAssetRecommendation en (Rejected e) = Inl (assetRecommendation_catch en e)"

subsection \<open>Reading results\<close>

text \<open>The field of a returned value; nothing when the operation threw.\<close>

fun result_field :: "thrown + json \<Rightarrow> string \<Rightarrow> json option" where
  "result_field (Inr v) k = get_prop v k"
| "result_field (Inl e) k = None"



text \<open>
  An engine to evaluate the operations with at inputs where no number is rendered and
  no string is read as a number. Every theorem below holds for every engine.
\<close>

definition engine0 :: js_engine where
  "engine0 = \<lparr>number_to_string = (\<lambda>n. []), string_to_number = (\<lambda>s. NaN)\<rparr>"

section \<open>Properties\<close>

subsection \<open>The two branches of a resolved call\<close>

lemma is_legacy_not_null: "is_legacy d \<Longrightarrow> d \<noteq> JNull"
  by (auto simp: is_legacy_def)

lemma getCreditScore_legacy:
  assumes "is_legacy d"
  shows "\<exists>score. get_prop d ''score'' = Some score \<and>
           getCreditScore en (Resolved d)
             = (case adapt en score (get_prop d ''probability'') of
                  None \<Rightarrow> Inl (Error ''Failed to fetch credit score'')
                | Some r \<Rightarrow> Inr r)"
proof -
  from assms obtain score where s: "get_prop d ''score'' = Some score"
    by (auto simp: is_legacy_def)
  from assms have c: "get_prop d ''credit_score'' = None"
    by (simp add: is_legacy_def)
  from s have "d \<noteq> JNull" by auto
  then have "getCreditScore en (Resolved d)
               = (case adapt en score (get_prop d ''probability'') of
                    None \<Rightarrow> Inl (Error ''Failed to fetch credit score'')
                  | Some r \<Rightarrow> Inr r)"
    using s c
    by (cases d) (simp_all add: getCreditScore_def creditScore_catch_def split: option.splits)
  with s show ?thesis by blast
qed

lemma getCreditScore_passthrough:
  assumes "\<not> is_legacy d" and "d \<noteq> JNull"
  shows "getCreditScore en (Resolved d) = Inr d"
  using assms
  by (cases d) (auto simp: getCreditScore_def is_legacy_def split: option.splits)


text \<open>
  C6. A 2xx payload that contains \<open>credit_score\<close> is returned as it is: the result is
  the payload itself, so every field of the result is the payload's field.
\<close>

theorem C6_canonical_passthrough:
  assumes "get_prop d ''credit_score'' \<noteq> None"
  shows "getCreditScore en (Resolved d) = Inr d"
proof -
  from assms have "d \<noteq> JNull" by auto
  moreover from assms have "\<not> is_legacy d" by (simp add: is_legacy_def)
  ultimately show ?thesis by (rule getCreditScore_passthrough [rotated])
qed

theorem C6_canonical_passthrough_witness:
  "getCreditScore engine0
     (Resolved (JObj [(''credit_score'', JNum (Finite 712)),
                      (''probability_of_default'', JNum (Finite (1 / 8))),
                      (''risk_tier'', JStr ''LOW'')]))
   = Inr (JObj [(''credit_score'', JNum (Finite 712)),
                (''probability_of_default'', JNum (Finite (1 / 8))),
                (''risk_tier'', JStr ''LOW'')])"
  using C6_canonical_passthrough
    [of "JObj [(''credit_score'', JNum (Finite 712)),
               (''probability_of_default'', JNum (Finite (1 / 8))),
               (''risk_tier'', JStr ''LOW'')]" engine0]
  by simp

subsection \<open>The adapter\<close>

lemma calculatedRisk_to_number:
  "calculatedRisk en prob
     = map_option
         (\<lambda>n. if num_le n lit_0_25 then LOW else if num_le n lit_0_55 then MEDIUM else HIGH)
         (to_number en prob)"
  by (cases "to_number en prob") (simp_all add: calculatedRisk_def js_le_def)

lemma adapt_raises:
  "to_number en (js_or_lit probability (JNum (Finite 0))) = None \<Longrightarrow>
     adapt en score probability = None"
  by (simp add: adapt_def Let_def calculatedRisk_to_number)

lemma adapt_returns:
  assumes "to_number en (js_or_lit probability (JNum (Finite 0))) = Some n"
  shows "adapt en score probability
           = Some (JObj
               [(''credit_score'', score),
                (''probability_of_default'', js_or_lit probability (JNum (Finite 0))),
                (''risk_tier'',
                   JStr (tier_name (if num_le n lit_0_25 then LOW
                                    else if num_le n lit_0_55 then MEDIUM else HIGH))),
                (''recommended_loan_amount'', JNum (Finite 1000000)),
                (''recommended_tenor_months'', JNum (Finite 12)),
                (''explainability'',
                   JObj [(''top_positive_factors'', JArr []),
                         (''top_negative_factors'', JArr [])])])"
  using assms by (simp add: adapt_def Let_def calculatedRisk_to_number)

lemma lit_0_55_is_rounded:
  "55 / 100 < lit_0_55 \<and> lit_0_55 - 55 / 100 < 1 / 2 ^ 54
     \<and> lit_0_55 = 4953959590107546 / 2 ^ 53
     \<and> (2::real) ^ 52 \<le> 4953959590107546 \<and> (4953959590107546::real) < 2 ^ 53"
  by (simp add: lit_0_55_def)

lemma example_doubles_are_rounded:
  "\<bar>2501 / 10000 - 1126350266805361 / 4503599627370496 :: real\<bar> < 1 / 2 ^ 55"
  "\<bar>5501 / 10000 - 1238715077508255 / 2251799813685248 :: real\<bar> < 1 / 2 ^ 54"
  by simp_all




text \<open>
  C8, as the specification has it, fails for a \<open>probability\<close> whose conversion to a
  number raises: for the payload \<open>{score: 640, probability: {toString: 1}}\<close> the
  comparison \<open>prob <= 0.25\<close> throws inside the \<open>try\<close> block, and the call ends in the
  error \<open>Failed to fetch credit score\<close> with no result at all.
\<close>

theorem C8_counterexample:
  "is_legacy (JObj [(''score'', JNum (Finite 640)),
                    (''probability'', JObj [(''toString'', JNum (Finite 1))])])
   \<and> getCreditScore engine0
       (Resolved (JObj [(''score'', JNum (Finite 640)),
                        (''probability'', JObj [(''toString'', JNum (Finite 1))])]))
     = Inl (Error ''Failed to fetch credit score'')"
  by (simp add: is_legacy_def getCreditScore_def creditScore_catch_def adapt_def
      calculatedRisk_def js_le_def)

text \<open>
  C8, amended. For every legacy payload whose \<open>prob\<close> (\<open>probability\<close>, or \<open>0\<close> when
  that is absent or false) converts to a number without raising, whatever \<open>score\<close>
  and \<open>probability\<close> are, a result is returned and it has \<open>recommended_loan_amount\<close>
  1000000, \<open>recommended_tenor_months\<close> 12 and two empty explainability lists. Where
  the conversion raises, the call throws the error \<open>Failed to fetch credit score\<close>.
\<close>

theorem C8_legacy_defaults:
  assumes "is_legacy d"
  shows "(to_number en (js_or_lit (get_prop d ''probability'') (JNum (Finite 0))) \<noteq> None \<longrightarrow>
            result_field (getCreditScore en (Resolved d)) ''recommended_loan_amount''
              = Some (JNum (Finite 1000000))
          \<and> result_field (getCreditScore en (Resolved d)) ''recommended_tenor_months''
              = Some (JNum (Finite 12))
          \<and> Option.bind (result_field (getCreditScore en (Resolved d)) ''explainability'')
               (\<lambda>x. get_prop x ''top_positive_factors'') = Some (JArr [])
          \<and> Option.bind (result_field (getCreditScore en (Resolved d)) ''explainability'')
               (\<lambda>x. get_prop x ''top_negative_factors'') = Some (JArr []))
       \<and> (to_number en (js_or_lit (get_prop d ''probability'') (JNum (Finite 0))) = None \<longrightarrow>
            getCreditScore en (Resolved d) = Inl (Error ''Failed to fetch credit score''))"
proof -
  from getCreditScore_legacy [OF assms, of en]
  obtain score where
    r: "getCreditScore en (Resolved d)
          = (case adapt en score (get_prop d ''probability'') of
               None \<Rightarrow> Inl (Error ''Failed to fetch credit score'')
             | Some r \<Rightarrow> Inr r)"
    by auto
  show ?thesis
  proof (cases "to_number en (js_or_lit (get_prop d ''probability'') (JNum (Finite 0)))")
    case None
    then show ?thesis by (simp add: r adapt_raises)
  next
    case (Some n)
    then show ?thesis by (simp add: r adapt_returns [OF Some])
  qed
qed

theorem C8_legacy_defaults_witness:
  "result_field (getCreditScore engine0
       (Resolved (JObj [(''score'', JNum (Finite 300)), (''probability'', JStr ''n/a'')])))
     ''recommended_loan_amount'' = Some (JNum (Finite 1000000))
   \<and> result_field (getCreditScore engine0
       (Resolved (JObj [(''score'', JNum (Finite 300)), (''probability'', JStr ''n/a'')])))
     ''recommended_tenor_months'' = Some (JNum (Finite 12))
   \<and> Option.bind (result_field (getCreditScore engine0
       (Resolved (JObj [(''score'', JNum (Finite 300)), (''probability'', JStr ''n/a'')])))
     ''explainability'') (\<lambda>x. get_prop x ''top_positive_factors'') = Some (JArr [])
   \<and> Option.bind (result_field (getCreditScore engine0
       (Resolved (JObj [(''score'', JNum (Finite 300)), (''probability'', JStr ''n/a'')])))
     ''explainability'') (\<lambda>x. get_prop x ''top_negative_factors'') = Some (JArr [])
   \<and> getCreditScore engine0
       (Resolved (JObj [(''score'', JNum (Finite 640)),
                        (''probability'', JArr [JObj [(''toString'', JNull)]])]))
     = Inl (Error ''Failed to fetch credit score'')"
  using
    C8_legacy_defaults
      [of "JObj [(''score'', JNum (Finite 300)), (''probability'', JStr ''n/a'')]" engine0]
    C8_legacy_defaults
      [of "JObj [(''score'', JNum (Finite 640)),
                 (''probability'', JArr [JObj [(''toString'', JNull)]])]" engine0]
  by (simp add: is_legacy_def)

text \<open>
  C9. A legacy payload with no \<open>probability\<close> field gives
  \<open>probability_of_default = 0\<close> and \<open>risk_tier = LOW\<close>.
\<close>

theorem C9_missing_probability:
  assumes "is_legacy d" and "get_prop d ''probability'' = None"
  shows "result_field (getCreditScore en (Resolved d)) ''probability_of_default''
           = Some (JNum (Finite 0))
       \<and> result_field (getCreditScore en (Resolved d)) ''risk_tier'' = Some (JStr ''LOW'')"
proof -
  have n: "to_number en (js_or_lit None (JNum (Finite 0))) = Some (Finite 0)"
    by simp
  from getCreditScore_legacy [OF assms(1), of en] assms(2)
  obtain score where
    "getCreditScore en (Resolved d)
       = (case adapt en score None of
            None \<Rightarrow> Inl (Error ''Failed to fetch credit score'')
          | Some r \<Rightarrow> Inr r)"
    by auto
  then show ?thesis
    by (simp add: adapt_returns [OF n] lit_0_25_def)
qed

theorem C9_missing_probability_witness:
  "result_field (getCreditScore engine0 (Resolved (JObj [(''score'', JNum (Finite 700))])))
     ''probability_of_default'' = Some (JNum (Finite 0))
   \<and> result_field (getCreditScore engine0 (Resolved (JObj [(''score'', JNum (Finite 700))])))
     ''risk_tier'' = Some (JStr ''LOW'')"
  using C9_missing_probability [of "JObj [(''score'', JNum (Finite 700))]" engine0]
  by (simp add: is_legacy_def)

subsection \<open>What a call can give back\<close>


lemma api_error_no_detail:
  assumes "detail_of e = None \<or> detail_of e = Some JNull"
  shows "api_error en e = Error ''Unknown API error''"
  using assms by (auto simp: api_error_def js_or_def)

lemma getCreditScore_Rejected:
  "getCreditScore en (Rejected e) = Inl (creditScore_catch en e)"
  by (simp add: getCreditScore_def)

lemma msgs_present_not_null:
  "map (\<lambda>d. get_prop d ''msg'') ds = map Some vs \<Longrightarrow> JNull \<notin> set ds"
  by (induction ds arbitrary: vs) auto

lemma join_js_strings:
  "join_js en sep (map (\<lambda>s. Some (JStr s)) ss) = Some (join_with sep ss)"
proof -
  have "those (map (piece en) (map (\<lambda>s. Some (JStr s)) ss)) = Some ss"
    by (induction ss) simp_all
  then show ?thesis by (simp add: join_js_def)
qed

lemma joined_msgs_strings:
  assumes "map (\<lambda>d. get_prop d ''msg'') ds = map (\<lambda>s. Some (JStr s)) ss"
  shows "joined_msgs en (Some (JArr ds)) = Inr (Some (JStr (join_with '', '' ss)))"
proof -
  have "JNull \<notin> set ds"
    using assms msgs_present_not_null [of ds "map JStr ss"] by (simp add: comp_def)
  then show ?thesis by (simp add: assms join_js_strings)
qed

lemma api_error_strings:
  assumes "detail_of e = Some (JArr ds)"
    and "map (\<lambda>d. get_prop d ''msg'') ds = map (\<lambda>s. Some (JStr s)) ss"
    and "join_with '', '' ss \<noteq> [] \<or> ds = []"
  shows "api_error en e = Error (join_with '', '' ss)"
proof (cases "join_with '', '' ss = []")
  case False
  with assms(1) joined_msgs_strings [OF assms(2), of en] show ?thesis
    by (simp add: api_error_def js_or_def)
next
  case True
  with assms(3) have "ds = []" by simp
  with assms(1,2) show ?thesis by (simp add: api_error_def js_or_def join_js_def)
qed




subsection \<open>The message of a failure\<close>

text \<open>
  C3, as the specification has it, fails: when the connection is refused axios rejects
  with the message \<open>Network Error\<close> and no response, and \<open>getCreditScore\<close> throws an
  error whose message is \<open>Unknown API error\<close>.
\<close>

theorem C3_counterexample:
  "getCreditScore engine0 (Rejected (AxiosError ''Network Error'' None))
     = Inl (Error ''Unknown API error'')
   \<and> getCreditScore engine0 (Rejected (AxiosError ''Network Error'' None))
     \<noteq> Inl (Error ''Network Error'')"
  by (simp add: getCreditScore_def creditScore_catch_def api_error_def js_or_def)

text \<open>
  C3, amended. For every transport failure that carries no \<open>detail\<close> (no response at
  all, or a body without that field), \<open>getCreditScore\<close> throws an \<open>Error\<close> whose message
  is the fixed string \<open>Unknown API error\<close>, whatever the transport's own message is.
\<close>

theorem C3_no_detail_message:
  assumes "detail_of (AxiosError m r) = None"
  shows "getCreditScore en (Rejected (AxiosError m r)) = Inl (Error ''Unknown API error'')"
  using assms
  by (simp add: getCreditScore_Rejected creditScore_catch_def api_error_no_detail)

theorem C3_no_detail_message_witness:
  "getCreditScore engine0 (Rejected (AxiosError ''connect ECONNREFUSED 127.0.0.1:8000'' None))
     = Inl (Error ''Unknown API error'')"
  using C3_no_detail_message [of "''connect ECONNREFUSED 127.0.0.1:8000''" None engine0]
  by simp

text \<open>
  C4. With the error body \<open>{detail: "invalid token"}\<close> the source calls \<open>.map\<close> on the
  string: \<open>getCreditScore\<close> throws a \<open>TypeError\<close> out of its \<open>catch\<close> block, and no
  error with the message \<open>invalid token\<close>.
\<close>

theorem C4_string_detail_throws_TypeError:
  "getCreditScore engine0
     (Rejected (AxiosError ''Request failed with status code 401''
        (Some (JObj [(''detail'', JStr ''invalid token'')]))))
   = Inl TypeError"
  by (simp add: getCreditScore_def creditScore_catch_def api_error_def)

text \<open>
  C5, as the specification has it, fails where the joined string is empty: for the body
  \<open>{detail: [{msg: ""}]}\<close> the join of the \<open>msg\<close> values is \<open>""\<close>, which \<open>||\<close> takes
  for false, so the list itself becomes the argument of \<open>new Error\<close> and the message is
  its string, \<open>[object Object]\<close>.
\<close>

theorem C5_counterexample:
  "getCreditScore engine0
     (Rejected (AxiosError ''Request failed with status code 422''
        (Some (JObj [(''detail'', JArr [JObj [(''msg'', JStr [])]])]))))
     = Inl (Error ''[object Object]'')
   \<and> ''[object Object]'' \<noteq> join_with '', '' [[]]"
  by (simp add: getCreditScore_def creditScore_catch_def api_error_def js_or_def join_js_def)

text \<open>
  C5, amended. When \<open>detail\<close> is a list whose entries each carry a \<open>msg\<close> that is a
  string, and those strings joined with \<open>", "\<close> are not the empty string or the list
  is empty, the thrown error's message is that joined string. The witness is the
  example of the specification.
\<close>

theorem C5_list_detail_message:
  assumes "get_prop body ''detail'' = Some (JArr ds)"
    and "map (\<lambda>d. get_prop d ''msg'') ds = map (\<lambda>s. Some (JStr s)) ss"
    and "join_with '', '' ss \<noteq> [] \<or> ds = []"
  shows "getCreditScore en (Rejected (AxiosError m (Some body)))
           = Inl (Error (join_with '', '' ss))"
proof -
  from assms(1) have "detail_of (AxiosError m (Some body)) = Some (JArr ds)"
    by simp
  from api_error_strings [OF this assms(2,3), of en] show ?thesis
    by (simp add: getCreditScore_Rejected creditScore_catch_def)
qed

theorem C5_list_detail_message_witness:
  "getCreditScore engine0
     (Rejected (AxiosError ''Request failed with status code 422''
        (Some (JObj [(''detail'',
           JArr [JObj [(''msg'', JStr ''age required'')],
                 JObj [(''msg'', JStr ''limit required'')]])]))))
   = Inl (Error ''age required, limit required'')"
  using C5_list_detail_message
    [of "JObj [(''detail'',
           JArr [JObj [(''msg'', JStr ''age required'')],
                 JObj [(''msg'', JStr ''limit required'')]])]"
        "[JObj [(''msg'', JStr ''age required'')], JObj [(''msg'', JStr ''limit required'')]]"
        "[''age required'', ''limit required'']"
        engine0 "''Request failed with status code 422''"]
  by simp

subsection \<open>getFinancialHealth against getCreditScore\<close>

text \<open>
  C7, as the specification has it, fails: on a refused connection \<open>getCreditScore\<close>
  throws \<open>Unknown API error\<close> and \<open>getFinancialHealth\<close> throws the transport's message
  behind a prefix of its own, so the two do not build the same error.
\<close>

theorem C7_counterexample:
  "getFinancialHealth engine0 (Rejected (AxiosError ''Network Error'' None))
     = Inl (Error ''Financial Health API Error: Network Error'')
   \<and> getCreditScore engine0 (Rejected (AxiosError ''Network Error'' None))
     = Inl (Error ''Unknown API error'')
   \<and> getFinancialHealth engine0 (Rejected (AxiosError ''Network Error'' None))
     \<noteq> getCreditScore engine0 (Rejected (AxiosError ''Network Error'' None))"
  by (simp add: financialHealth_catch_def getCreditScore_def creditScore_catch_def
      api_error_def js_or_def)

text \<open>
  C7, amended. \<open>getFinancialHealth\<close> has a policy of its own. Its message is
  \<open>Financial Health API Error: \<close> followed by \<open>detail\<close> when the error body's \<open>detail\<close>
  is a string that is not empty, by the plain string of the list when \<open>detail\<close> is a
  list that converts to a string without raising (its \<open>msg\<close> fields are not read), and
  by the transport error's message when \<open>detail\<close> is absent, \<open>null\<close> or otherwise
  false. It has no generic fallback.
\<close>

theorem C7_financial_health_message:
  "(get_prop body ''detail'' = Some (JStr s) \<and> s \<noteq> [] \<longrightarrow>
      getFinancialHealth en (Rejected (AxiosError m (Some body)))
        = Inl (Error (''Financial Health API Error: '' @ s)))
   \<and> (get_prop body' ''detail'' = Some (JArr ds) \<and> to_str en (JArr ds) = Some t \<longrightarrow>
      getFinancialHealth en (Rejected (AxiosError m (Some body')))
        = Inl (Error (''Financial Health API Error: '' @ t)))
   \<and> (\<not> truthy (detail_of (AxiosError m r)) \<longrightarrow>
      getFinancialHealth en (Rejected (AxiosError m r))
        = Inl (Error (''Financial Health API Error: '' @ m)))"
proof (intro conjI impI)
  assume "get_prop body ''detail'' = Some (JStr s) \<and> s \<noteq> []"
  then show "getFinancialHealth en (Rejected (AxiosError m (Some body)))
               = Inl (Error (''Financial Health API Error: '' @ s))"
    by (simp add: financialHealth_catch_def)
next
  assume "get_prop body' ''detail'' = Some (JArr ds) \<and> to_str en (JArr ds) = Some t"
  then show "getFinancialHealth en (Rejected (AxiosError m (Some body')))
               = Inl (Error (''Financial Health API Error: '' @ t))"
    by (simp add: financialHealth_catch_def del: to_str.simps)
next
  assume f: "\<not> truthy (detail_of (AxiosError m r))"
  have "js_or_lit (detail_of (AxiosError m r)) (JStr m) = JStr m"
    using f by (cases "detail_of (AxiosError m r)") simp_all
  then show "getFinancialHealth en (Rejected (AxiosError m r))
               = Inl (Error (''Financial Health API Error: '' @ m))"
    by (simp add: financialHealth_catch_def)
qed

theorem C7_financial_health_message_witness:
  "getFinancialHealth engine0
     (Rejected (AxiosError ''Request failed with status code 401''
        (Some (JObj [(''detail'', JStr ''invalid token'')]))))
     = Inl (Error ''Financial Health API Error: invalid token'')
   \<and> getFinancialHealth engine0
     (Rejected (AxiosError ''Request failed with status code 422''
        (Some (JObj [(''detail'',
           JArr [JObj [(''msg'', JStr ''age required'')],
                 JObj [(''msg'', JStr ''limit required'')]])]))))
     = Inl (Error ''Financial Health API Error: [object Object],[object Object]'')
   \<and> getFinancialHealth engine0 (Rejected (AxiosError ''timeout of 0ms exceeded'' None))
     = Inl (Error ''Financial Health API Error: timeout of 0ms exceeded'')"
  using C7_financial_health_message
    [of "JObj [(''detail'', JStr ''invalid token'')]" "''invalid token''" engine0
        "''Request failed with status code 401''"]
    C7_financial_health_message
    [of _ _ engine0 "''Request failed with status code 422''"
        "JObj [(''detail'',
           JArr [JObj [(''msg'', JStr ''age required'')],
                 JObj [(''msg'', JStr ''limit required'')]])]"
        "[JObj [(''msg'', JStr ''age required'')], JObj [(''msg'', JStr ''limit required'')]]"
        "''[object Object],[object Object]''"]
    C7_financial_health_message [of _ _ engine0 "''timeout of 0ms exceeded''" _ _ _ None]
  by simp

subsection \<open>Failures that are no axios errors\<close>

text \<open>
  C10. When what the \<open>try\<close> block threw is no axios error, each operation throws an
  error with its own fixed message: \<open>Failed to fetch credit score\<close>,
  \<open>Failed to fetch financial health\<close>, \<open>Failed to fetch asset recommendation\<close>. For
  \<open>getCreditScore\<close> this covers the \<open>TypeError\<close> of a \<open>null\<close> payload too. What was
  caught is not thrown again.
\<close>

theorem C10_fixed_messages:
  "(creditScore_try en out = Inl e \<and> \<not> isAxiosError e \<longrightarrow>
      getCreditScore en out = Inl (Error ''Failed to fetch credit score''))
   \<and> (\<not> isAxiosError e' \<longrightarrow>
      getFinancialHealth en (Rejected e') = Inl (Error ''Failed to fetch financial health'')
      \<and> getAssetRecommendation en (Rejected e')
          = Inl (Error ''Failed to fetch asset recommendation''))"
proof (intro conjI impI)
  assume "creditScore_try en out = Inl e \<and> \<not> isAxiosError e"
  then show "getCreditScore en out = Inl (Error ''Failed to fetch credit score'')"
    by (simp add: getCreditScore_def creditScore_catch_def)
next
  assume "\<not> isAxiosError e'"
  then show "getFinancialHealth en (Rejected e')
               = Inl (Error ''Failed to fetch financial health'')"
    by (cases e') (simp_all add: financialHealth_catch_def)
next
  assume "\<not> isAxiosError e'"
  then show "getAssetRecommendation en (Rejected e')
               = Inl (Error ''Failed to fetch asset recommendation'')"
    by (simp add: assetRecommendation_catch_def)
qed

theorem C10_fixed_messages_witness:
  "getCreditScore engine0 (Resolved JNull) = Inl (Error ''Failed to fetch credit score'')
   \<and> getFinancialHealth engine0 (Rejected (Error ''boom''))
       = Inl (Error ''Failed to fetch financial health'')
   \<and> getAssetRecommendation engine0 (Rejected (Error ''boom''))
       = Inl (Error ''Failed to fetch asset recommendation'')"
  using C10_fixed_messages [of engine0 "Resolved JNull" TypeError "Error ''boom''"]
  by simp

end
